theory Spec2Isabelle
  imports Main "HOL-Library.AList"
begin

section \<open>The booking bot of \<open>src/main.py\<close>\<close>

text \<open>
  The class \<open>BookingBot\<close> keeps three mutable fields: \<open>users_data\<close> (a dict from the
  user id to the booking record), \<open>logs\<close> (a list of log entries) and \<open>user_states\<close> (a dict
  from the user id to the pending conversation state). Every handler is modelled as a function
  from the bot before the call to the outcome of the call and the bot after it.

  What is outside the bot's fields is an input of the model:
  \<^item> \<open>datetime.now()\<close> is the argument \<open>now\<close> of the handlers that write a log entry;
  \<^item> \<open>int(...)\<close> applied to a command argument or to a text message is the value
    \<open>Parsed n\<close>, or \<open>Unparsable\<close> where Python raises \<open>ValueError\<close>;
  \<^item> the messages sent to the user are the constructors of \<open>reply\<close>, one for each
    \<open>reply_text\<close> / \<open>edit_message_text\<close> call of the source. \<open>send_admin_notification\<close>
    sends one more message, catches its own exceptions and reads or writes no field of the
    bot, so the replies \<open>Booking_confirmed\<close>, \<open>Edit_confirmed\<close> and \<open>Cancel_confirmed\<close>
    stand for the notification followed by the confirmation;
  \<^item> \<open>save_data\<close> and \<open>save_logs\<close> write the two fields to files and catch their own
    exceptions: they change no field of the bot.
\<close>

subsection \<open>Python's \<open>str\<close> on integers and \<open>str.lower\<close>\<close>

function str_nat :: "nat \<Rightarrow> string" where
  "str_nat n =
     (if n < 10 then [''0123456789'' ! n]
      else str_nat (n div 10) @ [''0123456789'' ! (n mod 10)])"
  by pat_completeness auto
termination
  by (relation "measure (\<lambda>n. n)") auto

declare str_nat.simps [simp del]

definition str_int :: "int \<Rightarrow> string" where
  "str_int i = (if i < 0 then CHR ''-'' # str_nat (nat (- i)) else str_nat (nat i))"

text \<open>\<open>str.lower\<close> on the ASCII letters (a \<open>char\<close> is a byte).\<close>

definition lower_char :: "char \<Rightarrow> char" where
  "lower_char c =
     (case map_of (zip ''ABCDEFGHIJKLMNOPQRSTUVWXYZ'' ''abcdefghijklmnopqrstuvwxyz'') c of
        Some l \<Rightarrow> l
      | None \<Rightarrow> c)"

definition lower :: "string \<Rightarrow> string" where
  "lower s = map lower_char s"

subsection \<open>Data\<close>

text \<open>The strings \<open>"active"\<close> and \<open>"cancelled"\<close> of the field \<open>status\<close>.\<close>

datatype status = Active | Cancelled

text \<open>
  A value of \<open>users_data\<close>. The key \<open>sets_before_cancel\<close> is absent until
  \<open>process_cancel_booking\<close> writes it.
\<close>

record booking =
  username :: string
  full_name :: string
  sets :: int
  status :: status
  sets_before_cancel :: "int option"

text \<open>The dict built by \<open>add_log_entry\<close>.\<close>

record log_entry =
  log_timestamp :: string
  log_user_id :: string
  log_username :: string
  log_full_name :: string
  log_change :: string
  log_total :: int
  log_status :: string

text \<open>
  A value of \<open>user_states\<close>: the key \<open>action\<close> is the constructor, \<open>username\<close> and
  \<open>full_name\<close> are its first two arguments and \<open>sets\<close> (written by
  \<open>cancel_booking_command\<close> only) the third. \<open>reset_command\<close> stores the action alone.
\<close>

datatype session =
    Booking string string
  | Editing string string
  | Cancelling string string int
  | Reset_confirmation

text \<open>
  \<open>user_state['username']\<close> and \<open>user_state['full_name']\<close>: a \<open>KeyError\<close> (here
  \<open>None\<close>) on the state that \<open>reset_command\<close> stores.
\<close>

fun session_identity :: "session \<Rightarrow> (string \<times> string) option" where
  "session_identity (Booking un fn) = Some (un, fn)"
| "session_identity (Editing un fn) = Some (un, fn)"
| "session_identity (Cancelling un fn n) = Some (un, fn)"
| "session_identity Reset_confirmation = None"

record bot =
  admin_chat_id :: string
  users_data :: "(string \<times> booking) list"
  logs :: "log_entry list"
  user_states :: "string \<rightharpoonup> session"

text \<open>
  \<open>users_data\<close> is an association list in insertion order, as a Python dict is:
  \<open>AList.update\<close> replaces the value of a key that is present where it stands and appends a
  new key at the end; \<open>map_of\<close> is the lookup.
\<close>

text \<open>\<open>BookingBot.__init__\<close> with no data file and no log file on disk.\<close>

definition init :: "string \<Rightarrow> bot" where
  "init admin = \<lparr>admin_chat_id = admin, users_data = [], logs = [], user_states = Map.empty\<rparr>"

text \<open>
  \<open>update.effective_user\<close>: \<open>user_id\<close> is \<open>str(update.effective_user.id)\<close>.
\<close>

record sender =
  user_id :: string
  tg_username :: "string option"
  tg_full_name :: string

text \<open>
  The username is the character \<open>@\<close> followed by \<open>update.effective_user.username\<close> when
  that is true, else \<open>"No username"\<close>; the full name is
  \<open>update.effective_user.full_name or "Unknown"\<close>. \<open>None\<close> and the empty string are both
  false in Python.
\<close>

definition username_of :: "sender \<Rightarrow> string" where
  "username_of u =
     (case tg_username u of
        None \<Rightarrow> ''No username''
      | Some n \<Rightarrow> if n = [] then ''No username'' else CHR ''@'' # n)"

definition full_name_of :: "sender \<Rightarrow> string" where
  "full_name_of u = (if tg_full_name u = [] then ''Unknown'' else tg_full_name u)"

text \<open>The result of Python's \<open>int(s)\<close>: the integer, or \<open>ValueError\<close>.\<close>

datatype parsed = Parsed int | Unparsable

text \<open>
  The callback data that the pattern \<open>^(edit_|cancel_)\<close> routes to \<open>button_callback\<close>:
  \<open>edit_manual\<close>; \<open>edit_\<close> followed by a text on which \<open>int\<close> returns \<open>n\<close>
  (\<open>Edit_button n\<close>: the bot's own buttons are \<open>edit_+1\<close>, \<open>edit_-1\<close>, \<open>edit_+2\<close> and
  \<open>edit_-2\<close>) or raises \<open>ValueError\<close> (\<open>Edit_unparsable\<close>); \<open>cancel_yes\<close>;
  \<open>cancel_no\<close>; and any other data starting with \<open>cancel_\<close> (\<open>Cancel_other\<close>), for
  which no branch of the handler applies.
\<close>

datatype callback_data =
    Edit_manual
  | Edit_button int
  | Edit_unparsable
  | Cancel_yes
  | Cancel_no
  | Cancel_other

text \<open>
  The callback data that the pattern \<open>^reset_\<close> routes to \<open>reset_confirmation_callback\<close>:
  \<open>reset_confirm\<close>, \<open>reset_cancel\<close>, and any other data starting with \<open>reset_\<close>
  (\<open>Reset_other\<close>), which is neither branch of the \<open>if\<close> / \<open>elif\<close>.
\<close>

datatype reset_data = Reset_confirm | Reset_cancel | Reset_other

text \<open>The exceptions that leave a handler.\<close>

datatype error = KeyError | ValueError

text \<open>One constructor for each message a handler answers with; the comment is its line.\<close>

datatype reply =
    Welcome                              \<comment> \<open>140\<close>
  | Positive_required                    \<comment> \<open>153, 536\<close>
  | Number_required                      \<comment> \<open>161, 545\<close>
  | Ask_quantity                         \<comment> \<open>171\<close>
  | Booking_confirmed int string         \<comment> \<open>196-203: sets, timestamp\<close>
  | No_active_booking                    \<comment> \<open>217, 326\<close>
  | Bad_edit_format                      \<comment> \<open>231, 559\<close>
  | Ask_change int                       \<comment> \<open>250-257: current sets\<close>
  | Negative_total                       \<comment> \<open>275\<close>
  | Edit_confirmed int int int string    \<comment> \<open>302-312: before, change, after, timestamp\<close>
  | Ask_cancel_confirmation int          \<comment> \<open>340-345: current sets\<close>
  | Admin_only                           \<comment> \<open>361, 575, 603\<close>
  | Summary_report "(string \<times> string \<times> string \<times> int) list"
      "(string \<times> string \<times> string \<times> int option) list" int
                                         \<comment> \<open>380-392: active, cancelled, total active sets\<close>
  | Session_expired                      \<comment> \<open>404\<close>
  | Ask_manual_change                    \<comment> \<open>413\<close>
  | Booking_kept                         \<comment> \<open>425\<close>
  | Cancel_confirmed string              \<comment> \<open>506-512: timestamp\<close>
  | Use_command_first                    \<comment> \<open>523\<close>
  | No_reply                             \<comment> \<open>no branch of the handler applies\<close>
  | Ask_reset_confirmation               \<comment> \<open>587\<close>
  | Send_usage                           \<comment> \<open>608\<close>
  | User_not_found string                \<comment> \<open>630\<close>
  | Message_sent string string           \<comment> \<open>644: username, user id\<close>
  | Message_failed string string         \<comment> \<open>648\<close>
  | Reset_session_invalid                \<comment> \<open>667\<close>
  | Reset_done                           \<comment> \<open>677\<close>
  | Reset_cancelled                      \<comment> \<open>684\<close>

type_synonym outcome = "error + reply"

subsection \<open>The log and the three mutations\<close>

definition add_log_entry ::
  "string \<Rightarrow> string \<Rightarrow> string \<Rightarrow> string \<Rightarrow> string \<Rightarrow> int \<Rightarrow> string \<Rightarrow> bot \<Rightarrow> bot" where
  "add_log_entry now uid un fn chg tot st b =
     b\<lparr>logs := logs b @
        [\<lparr>log_timestamp = now, log_user_id = uid, log_username = un, log_full_name = fn,
          log_change = chg, log_total = tot, log_status = st\<rparr>]\<rparr>"

text \<open>\<open>if user_id in self.user_states: del self.user_states[user_id]\<close>\<close>

definition clear_state :: "string \<Rightarrow> bot \<Rightarrow> bot" where
  "clear_state uid b = b\<lparr>user_states := (user_states b)(uid := None)\<rparr>"

definition process_booking ::
  "string \<Rightarrow> string \<Rightarrow> string \<Rightarrow> string \<Rightarrow> int \<Rightarrow> bot \<Rightarrow> outcome \<times> bot" where
  "process_booking now uid un fn n b =
     (let b1 = b\<lparr>users_data :=
                 AList.update uid
                   \<lparr>username = un, full_name = fn, sets = n, status = Active,
                    sets_before_cancel = None\<rparr>
                   (users_data b)\<rparr>;
          b2 = add_log_entry now uid un fn (''+'' @ str_int n) n ''Booked'' b1
      in (Inr (Booking_confirmed n now), clear_state uid b2))"

text \<open>
  \<open>self.users_data[user_id]["sets"]\<close> raises \<open>KeyError\<close> when the user has no record. The
  function does not read the record's status.
\<close>

definition process_edit_booking ::
  "string \<Rightarrow> string \<Rightarrow> string \<Rightarrow> string \<Rightarrow> int \<Rightarrow> bot \<Rightarrow> outcome \<times> bot" where
  "process_edit_booking now uid un fn change b =
     (case map_of (users_data b) uid of
        None \<Rightarrow> (Inl KeyError, b)
      | Some r \<Rightarrow>
          (let current_sets = sets r;
               new_total = current_sets + change
           in if new_total < 0 then (Inr Negative_total, b)
              else
                (let b1 = b\<lparr>users_data :=
                            AList.update uid (r\<lparr>sets := new_total\<rparr>) (users_data b)\<rparr>;
                     b2 = add_log_entry now uid un fn
                            ((if change > 0 then ''+'' else '''') @ str_int change)
                            new_total ''Edited'' b1
                 in (Inr (Edit_confirmed current_sets change new_total now),
                     clear_state uid b2))))"

definition process_cancel_booking ::
  "string \<Rightarrow> string \<Rightarrow> string \<Rightarrow> string \<Rightarrow> bot \<Rightarrow> outcome \<times> bot" where
  "process_cancel_booking now uid un fn b =
     (case map_of (users_data b) uid of
        None \<Rightarrow> (Inl KeyError, b)
      | Some r \<Rightarrow>
          (let current_sets = sets r;
               b1 = b\<lparr>users_data :=
                      AList.update uid
                        (r\<lparr>status := Cancelled, sets_before_cancel := Some current_sets,
                           sets := 0\<rparr>)
                        (users_data b)\<rparr>;
               b2 = add_log_entry now uid un fn (''-'' @ str_int current_sets) 0 ''Cancelled'' b1
           in (Inr (Cancel_confirmed now), clear_state uid b2)))"

subsection \<open>The command handlers\<close>

definition start_command :: "bot \<Rightarrow> outcome \<times> bot" where
  "start_command b = (Inr Welcome, b)"

text \<open>
  \<open>arg\<close> is \<open>None\<close> when \<open>context.args\<close> is empty, else \<open>int(context.args[0])\<close>.
\<close>

definition book_command :: "string \<Rightarrow> sender \<Rightarrow> parsed option \<Rightarrow> bot \<Rightarrow> outcome \<times> bot" where
  "book_command now u arg b =
     (let uid = user_id u; un = username_of u; fn = full_name_of u
      in case arg of
           Some (Parsed n) \<Rightarrow>
             if n \<le> 0 then (Inr Positive_required, b)
             else process_booking now uid un fn n b
         | Some Unparsable \<Rightarrow> (Inr Number_required, b)
         | None \<Rightarrow>
             (Inr Ask_quantity, b\<lparr>user_states := (user_states b)(uid \<mapsto> Booking un fn)\<rparr>))"

definition edit_book_command ::
  "string \<Rightarrow> sender \<Rightarrow> parsed option \<Rightarrow> bot \<Rightarrow> outcome \<times> bot" where
  "edit_book_command now u arg b =
     (let uid = user_id u; un = username_of u; fn = full_name_of u
      in case map_of (users_data b) uid of
           None \<Rightarrow> (Inr No_active_booking, b)
         | Some r \<Rightarrow>
             if status r \<noteq> Active then (Inr No_active_booking, b)
             else
               (let current_sets = sets r
                in case arg of
                     Some (Parsed change) \<Rightarrow> process_edit_booking now uid un fn change b
                   | Some Unparsable \<Rightarrow> (Inr Bad_edit_format, b)
                   | None \<Rightarrow>
                       (Inr (Ask_change current_sets),
                        b\<lparr>user_states := (user_states b)(uid \<mapsto> Editing un fn)\<rparr>)))"

definition cancel_booking_command :: "sender \<Rightarrow> bot \<Rightarrow> outcome \<times> bot" where
  "cancel_booking_command u b =
     (let uid = user_id u; un = username_of u; fn = full_name_of u
      in case map_of (users_data b) uid of
           None \<Rightarrow> (Inr No_active_booking, b)
         | Some r \<Rightarrow>
             if status r \<noteq> Active then (Inr No_active_booking, b)
             else
               (let current_sets = sets r
                in (Inr (Ask_cancel_confirmation current_sets),
                    b\<lparr>user_states :=
                        (user_states b)(uid \<mapsto> Cancelling un fn current_sets)\<rparr>)))"

text \<open>\<open>self.admin_chat_id.replace('-', '')\<close>: every occurrence is replaced.\<close>

definition replace_dash :: "string \<Rightarrow> string" where
  "replace_dash s = filter (\<lambda>c. c \<noteq> CHR ''-'') s"

text \<open>The loop of \<open>summary_command\<close> over \<open>self.users_data.items()\<close>.\<close>

fun summarise ::
  "(string \<times> booking) list \<Rightarrow> (string \<times> string \<times> string \<times> int) list \<Rightarrow>
   (string \<times> string \<times> string \<times> int option) list \<Rightarrow> int \<Rightarrow> reply" where
  "summarise [] active_bookings cancelled_bookings total_active_sets =
     Summary_report active_bookings cancelled_bookings total_active_sets"
| "summarise ((uid, d) # rest) active_bookings cancelled_bookings total_active_sets =
     (if status d = Active
      then summarise rest (active_bookings @ [(uid, full_name d, username d, sets d)])
             cancelled_bookings (total_active_sets + sets d)
      else summarise rest active_bookings
             (cancelled_bookings @ [(uid, full_name d, username d, sets_before_cancel d)])
             total_active_sets)"

definition summary_command :: "sender \<Rightarrow> bot \<Rightarrow> outcome \<times> bot" where
  "summary_command u b =
     (if user_id u \<noteq> replace_dash (admin_chat_id b) then (Inr Admin_only, b)
      else (Inr (summarise (users_data b) [] [] 0), b))"

definition reset_command :: "sender \<Rightarrow> bot \<Rightarrow> outcome \<times> bot" where
  "reset_command u b =
     (if user_id u \<noteq> replace_dash (admin_chat_id b) then (Inr Admin_only, b)
      else (Inr Ask_reset_confirmation,
            b\<lparr>user_states := (user_states b)(user_id u \<mapsto> Reset_confirmation)\<rparr>))"

text \<open>
  \<open>args\<close> is \<open>context.args\<close>; \<open>delivered\<close> tells whether \<open>context.bot.send_message\<close>
  returned or raised (the handler catches the exception). The loop stops at the first record
  whose stored username is not empty and equals the target when both are lowercased; an empty
  user id is false in \<open>if not target_user_id\<close>.
\<close>

definition send_message_command :: "sender \<Rightarrow> string list \<Rightarrow> bool \<Rightarrow> bot \<Rightarrow> outcome \<times> bot" where
  "send_message_command u args delivered b =
     (if user_id u \<noteq> replace_dash (admin_chat_id b) then (Inr Admin_only, b)
      else if length args < 2 then (Inr Send_usage, b)
      else
        (let target_username_input = lower (hd args)
         in case List.find
                   (\<lambda>(uid, d). username d \<noteq> [] \<and> lower (username d) = target_username_input)
                   (users_data b) of
              None \<Rightarrow> (Inr (User_not_found target_username_input), b)
            | Some (target_user_id, d) \<Rightarrow>
                if target_user_id = [] then (Inr (User_not_found target_username_input), b)
                else if delivered
                then (Inr (Message_sent target_username_input target_user_id), b)
                else (Inr (Message_failed target_username_input target_user_id), b)))"

subsection \<open>Buttons and free text\<close>

text \<open>
  \<open>button_callback\<close> looks for any pending state of the user; it reads neither the state's
  action nor the record's status before it edits or cancels.
\<close>

definition button_callback :: "string \<Rightarrow> string \<Rightarrow> callback_data \<Rightarrow> bot \<Rightarrow> outcome \<times> bot" where
  "button_callback now uid data b =
     (case user_states b uid of
        None \<Rightarrow> (Inr Session_expired, b)
      | Some user_state \<Rightarrow>
          (case session_identity user_state of
             None \<Rightarrow> (Inl KeyError, b)
           | Some (un, fn) \<Rightarrow>
               (case data of
                  Edit_manual \<Rightarrow> (Inr Ask_manual_change, b)
                | Edit_button change \<Rightarrow> process_edit_booking now uid un fn change b
                | Edit_unparsable \<Rightarrow> (Inl ValueError, b)
                | Cancel_yes \<Rightarrow> process_cancel_booking now uid un fn b
                | Cancel_no \<Rightarrow> (Inr Booking_kept, clear_state uid b)
                | Cancel_other \<Rightarrow> (Inr No_reply, b))))"

text \<open>\<open>msg\<close> is \<open>int(update.message.text.strip())\<close>.\<close>

definition handle_text_message :: "string \<Rightarrow> sender \<Rightarrow> parsed \<Rightarrow> bot \<Rightarrow> outcome \<times> bot" where
  "handle_text_message now u msg b =
     (let uid = user_id u
      in case user_states b uid of
           None \<Rightarrow> (Inr Use_command_first, b)
         | Some (Booking un fn) \<Rightarrow>
             (case msg of
                Parsed n \<Rightarrow>
                  if n \<le> 0 then (Inr Positive_required, b)
                  else process_booking now uid un fn n b
              | Unparsable \<Rightarrow> (Inr Number_required, b))
         | Some (Editing un fn) \<Rightarrow>
             (case msg of
                Parsed change \<Rightarrow> process_edit_booking now uid un fn change b
              | Unparsable \<Rightarrow> (Inr Bad_edit_format, b))
         | Some (Cancelling un fn n) \<Rightarrow> (Inr No_reply, b)
         | Some Reset_confirmation \<Rightarrow> (Inr No_reply, b))"

text \<open>
  The \<open>if\<close> / \<open>elif\<close> on the data has no \<open>else\<close>, and the lines after it delete the
  state of the user whatever the data was.
\<close>

definition reset_confirmation_callback :: "string \<Rightarrow> reset_data \<Rightarrow> bot \<Rightarrow> outcome \<times> bot" where
  "reset_confirmation_callback uid data b =
     (case user_states b uid of
        Some Reset_confirmation \<Rightarrow>
          (case data of
             Reset_confirm \<Rightarrow> (Inr Reset_done, clear_state uid (b\<lparr>users_data := [], logs := []\<rparr>))
           | Reset_cancel \<Rightarrow> (Inr Reset_cancelled, clear_state uid b)
           | Reset_other \<Rightarrow> (Inr No_reply, clear_state uid b))
      | _ \<Rightarrow> (Inr Reset_session_invalid, b))"

subsection \<open>The dispatcher\<close>

text \<open>
  The handlers registered in \<open>run\<close>. An exception that leaves a handler is caught by
  \<open>error_handler\<close>, which answers and changes no field: the bot goes on from the state the
  handler left.
\<close>

datatype event =
    Start
  | Book sender "parsed option"
  | Edit_book sender "parsed option"
  | Cancel_booking sender
  | Summary sender
  | Reset sender
  | Send_message sender "string list" bool
  | Text sender parsed
  | Button string callback_data
  | Reset_button string reset_data

fun step :: "string \<Rightarrow> event \<Rightarrow> bot \<Rightarrow> outcome \<times> bot" where
  "step now Start b = start_command b"
| "step now (Book u arg) b = book_command now u arg b"
| "step now (Edit_book u arg) b = edit_book_command now u arg b"
| "step now (Cancel_booking u) b = cancel_booking_command u b"
| "step now (Summary u) b = summary_command u b"
| "step now (Reset u) b = reset_command u b"
| "step now (Send_message u args delivered) b = send_message_command u args delivered b"
| "step now (Text u msg) b = handle_text_message now u msg b"
| "step now (Button uid data) b = button_callback now uid data b"
| "step now (Reset_button uid data) b = reset_confirmation_callback uid data b"

text \<open>The bot after a list of events, each with the clock's reading when it is handled.\<close>

fun run :: "(string \<times> event) list \<Rightarrow> bot \<Rightarrow> bot" where
  "run [] b = b"
| "run ((now, ev) # evs) b = run evs (snd (step now ev b))"

subsection \<open>Notions used to state the properties\<close>

text \<open>
  The spec's wording of the admin check: the configured admin identifier "stripped of a
  leading separator character". This definition follows the spec, not the source; the source
  is \<open>replace_dash\<close>.
\<close>

definition strip_leading_separator :: "string \<Rightarrow> string" where
  "strip_leading_separator s =
     (case s of [] \<Rightarrow> [] | c # cs \<Rightarrow> if c = CHR ''-'' then cs else s)"

text \<open>
  The outcomes that complete a pending interaction: a confirmed booking, edit or cancellation,
  a declined cancellation, and a confirmed or declined reset. (The reset dialogue also ends,
  with no answer, on callback data that is neither \<open>reset_confirm\<close> nor \<open>reset_cancel\<close>.)
\<close>

definition completes :: "outcome \<Rightarrow> bool" where
  "completes out =
     (case out of
        Inr (Booking_confirmed n t) \<Rightarrow> True
      | Inr (Edit_confirmed before change after t) \<Rightarrow> True
      | Inr (Cancel_confirmed t) \<Rightarrow> True
      | Inr Booking_kept \<Rightarrow> True
      | Inr Reset_done \<Rightarrow> True
      | Inr Reset_cancelled \<Rightarrow> True
      | _ \<Rightarrow> False)"

text \<open>The first part of the record invariant of the spec: no record has negative sets.\<close>

definition sets_nonneg :: "bot \<Rightarrow> bool" where
  "sets_nonneg b = list_all (\<lambda>(uid, r). 0 \<le> sets r) (users_data b)"

text \<open>The outcomes of a successful mutation: a confirmed booking, edit or cancellation.\<close>

definition mutating :: "outcome \<Rightarrow> bool" where
  "mutating out =
     (case out of
        Inr (Booking_confirmed n t) \<Rightarrow> True
      | Inr (Edit_confirmed before change after t) \<Rightarrow> True
      | Inr (Cancel_confirmed t) \<Rightarrow> True
      | _ \<Rightarrow> False)"

section \<open>Properties\<close>

subsection \<open>Auxiliary facts\<close>

lemmas handler_defs =
  start_command_def book_command_def edit_book_command_def cancel_booking_command_def
  summary_command_def reset_command_def send_message_command_def button_callback_def
  handle_text_message_def reset_confirmation_callback_def
  process_booking_def process_edit_booking_def process_cancel_booking_def
  add_log_entry_def clear_state_def username_of_def full_name_of_def replace_dash_def
  init_def Let_def

lemma map_of_update: "map_of (AList.update k v al) = (map_of al)(k \<mapsto> v)"
  by (rule update_conv')

lemma list_all_update:
  "list_all P al \<Longrightarrow> P (k, v) \<Longrightarrow> list_all P (AList.update k v al)"
  by (induction al) auto

lemma list_all_map_of:
  "list_all P al \<Longrightarrow> map_of al k = Some v \<Longrightarrow> P (k, v)"
  by (induction al) (auto split: if_splits)

lemma summarise_report:
  "\<exists>a c t. summarise xs a0 c0 t0 = Summary_report a c t"
  by (induction xs a0 c0 t0 rule: summarise.induct) auto

lemma summarise_not_mutating: "\<not> mutating (Inr (summarise xs a c t))"
  using summarise_report [of xs a c t] by (auto simp: mutating_def)

lemma summarise_not_completes: "\<not> completes (Inr (summarise xs a c t))"
  using summarise_report [of xs a c t] by (auto simp: completes_def)

subsection \<open>Rejected edits\<close>

text \<open>
  C1. When the user's record is active with \<open>s\<close> sets and \<open>s + d < 0\<close>, the edit by \<open>d\<close> is
  rejected with the negative-total error and the bot after the call is the bot before it: the
  record still holds \<open>s\<close> sets with status active and the log has the same entries. This holds
  for \<open>process_edit_booking\<close> itself and for its three entry paths: the command with an
  inline argument, the free-text reply and the button of a user who is in the editing state.
\<close>

theorem edit_below_zero_rejected:
  assumes "map_of (users_data b) (user_id u) = Some r" and "status r = Active"
    and "sets r = s" and "s + d < 0"
  shows "process_edit_booking now (user_id u) un fn d b = (Inr Negative_total, b)
     \<and> edit_book_command now u (Some (Parsed d)) b = (Inr Negative_total, b)
     \<and> (user_states b (user_id u) = Some (Editing un fn)
          \<longrightarrow> handle_text_message now u (Parsed d) b = (Inr Negative_total, b))
     \<and> (user_states b (user_id u) = Some (Editing un fn)
          \<longrightarrow> button_callback now (user_id u) (Edit_button d) b = (Inr Negative_total, b))"
  using assms
  by (simp add: process_edit_booking_def edit_book_command_def handle_text_message_def
      button_callback_def Let_def)

theorem edit_below_zero_rejected_witness:
  "process_edit_booking ''t3'' ''7'' ''@al'' ''Al'' (- 10)
     (run [(''t1'', Book \<lparr>user_id = ''7'', tg_username = Some ''al'', tg_full_name = ''Al''\<rparr>
                      (Some (Parsed 3))),
           (''t2'', Edit_book \<lparr>user_id = ''7'', tg_username = Some ''al'', tg_full_name = ''Al''\<rparr>
                      None)] (init ''1''))
   = (Inr Negative_total,
      run [(''t1'', Book \<lparr>user_id = ''7'', tg_username = Some ''al'', tg_full_name = ''Al''\<rparr>
                      (Some (Parsed 3))),
           (''t2'', Edit_book \<lparr>user_id = ''7'', tg_username = Some ''al'', tg_full_name = ''Al''\<rparr>
                      None)] (init ''1''))
   \<and> handle_text_message ''t3''
       \<lparr>user_id = ''7'', tg_username = Some ''al'', tg_full_name = ''Al''\<rparr> (Parsed (- 10))
     (run [(''t1'', Book \<lparr>user_id = ''7'', tg_username = Some ''al'', tg_full_name = ''Al''\<rparr>
                      (Some (Parsed 3))),
           (''t2'', Edit_book \<lparr>user_id = ''7'', tg_username = Some ''al'', tg_full_name = ''Al''\<rparr>
                      None)] (init ''1''))
   = (Inr Negative_total,
      run [(''t1'', Book \<lparr>user_id = ''7'', tg_username = Some ''al'', tg_full_name = ''Al''\<rparr>
                      (Some (Parsed 3))),
           (''t2'', Edit_book \<lparr>user_id = ''7'', tg_username = Some ''al'', tg_full_name = ''Al''\<rparr>
                      None)] (init ''1''))
   \<and> button_callback ''t3'' ''7'' (Edit_button (- 10))
     (run [(''t1'', Book \<lparr>user_id = ''7'', tg_username = Some ''al'', tg_full_name = ''Al''\<rparr>
                      (Some (Parsed 3))),
           (''t2'', Edit_book \<lparr>user_id = ''7'', tg_username = Some ''al'', tg_full_name = ''Al''\<rparr>
                      None)] (init ''1''))
   = (Inr Negative_total,
      run [(''t1'', Book \<lparr>user_id = ''7'', tg_username = Some ''al'', tg_full_name = ''Al''\<rparr>
                      (Some (Parsed 3))),
           (''t2'', Edit_book \<lparr>user_id = ''7'', tg_username = Some ''al'', tg_full_name = ''Al''\<rparr>
                      None)] (init ''1''))"
  using edit_below_zero_rejected
    [of "run [(''t1'', Book \<lparr>user_id = ''7'', tg_username = Some ''al'', tg_full_name = ''Al''\<rparr>
                      (Some (Parsed 3))),
           (''t2'', Edit_book \<lparr>user_id = ''7'', tg_username = Some ''al'', tg_full_name = ''Al''\<rparr>
                      None)] (init ''1'')"
      "\<lparr>user_id = ''7'', tg_username = Some ''al'', tg_full_name = ''Al''\<rparr>"
      "\<lparr>username = ''@al'', full_name = ''Al'', sets = 3, status = Active,
        sets_before_cancel = None\<rparr>"
      3 "- 10" "''t3''" "''@al''" "''Al''"]
  by (simp add: handler_defs)

subsection \<open>The admin check\<close>

text \<open>
  C7. A caller whose identifier fails the admin check gets the admin-only answer from
  \<open>/summary\<close>, \<open>/reset\<close> and \<open>/send_message\<close>, and the bot after the call is the bot before
  it: the records, the log and the pending states are unchanged.
\<close>

theorem non_admin_rejected_unchanged:
  assumes "user_id u \<noteq> replace_dash (admin_chat_id b)"
  shows "summary_command u b = (Inr Admin_only, b)
     \<and> reset_command u b = (Inr Admin_only, b)
     \<and> send_message_command u args delivered b = (Inr Admin_only, b)"
  using assms by (simp add: summary_command_def reset_command_def send_message_command_def)

theorem non_admin_rejected_unchanged_witness:
  "summary_command \<lparr>user_id = ''7'', tg_username = Some ''al'', tg_full_name = ''Al''\<rparr>
      (init ''-100'') = (Inr Admin_only, init ''-100'')
   \<and> reset_command \<lparr>user_id = ''7'', tg_username = Some ''al'', tg_full_name = ''Al''\<rparr>
      (init ''-100'') = (Inr Admin_only, init ''-100'')
   \<and> send_message_command \<lparr>user_id = ''7'', tg_username = Some ''al'', tg_full_name = ''Al''\<rparr>
      [''@bo'', ''hi''] True (init ''-100'') = (Inr Admin_only, init ''-100'')"
  using non_admin_rejected_unchanged
    [of "\<lparr>user_id = ''7'', tg_username = Some ''al'', tg_full_name = ''Al''\<rparr>" "init ''-100''"
      "[''@bo'', ''hi'']" True]
  by (simp add: init_def replace_dash_def)

subsection \<open>The log\<close>

lemma process_booking_log:
  "\<exists>e r. logs (snd (process_booking now uid un fn n b)) = logs b @ [e] \<and>
     map_of (users_data (snd (process_booking now uid un fn n b))) (log_user_id e) = Some r \<and>
     log_total e = sets r"
  by (simp add: process_booking_def add_log_entry_def clear_state_def Let_def map_of_update)

lemma process_edit_booking_log:
  "mutating (fst (process_edit_booking now uid un fn d b)) \<Longrightarrow>
   \<exists>e r. logs (snd (process_edit_booking now uid un fn d b)) = logs b @ [e] \<and>
     map_of (users_data (snd (process_edit_booking now uid un fn d b))) (log_user_id e) = Some r \<and>
     log_total e = sets r"
  by (auto simp: process_edit_booking_def add_log_entry_def clear_state_def Let_def mutating_def
      map_of_update split: option.splits if_splits)

lemma process_cancel_booking_log:
  "mutating (fst (process_cancel_booking now uid un fn b)) \<Longrightarrow>
   \<exists>e r. logs (snd (process_cancel_booking now uid un fn b)) = logs b @ [e] \<and>
     map_of (users_data (snd (process_cancel_booking now uid un fn b))) (log_user_id e) = Some r \<and>
     log_total e = sets r"
  by (auto simp: process_cancel_booking_def add_log_entry_def clear_state_def Let_def mutating_def
      map_of_update split: option.splits if_splits)

lemma step_mutating_log:
  assumes "mutating (fst (step now ev b))"
  shows "\<exists>e r. logs (snd (step now ev b)) = logs b @ [e] \<and>
     map_of (users_data (snd (step now ev b))) (log_user_id e) = Some r \<and>
     log_total e = sets r"
proof (cases ev)
  case (Book u arg)
  with assms show ?thesis
    using process_booking_log [of now "user_id u" "username_of u" "full_name_of u" _ b]
    by (auto simp: book_command_def Let_def mutating_def
        split: option.splits parsed.splits if_splits)
next
  case (Edit_book u arg)
  with assms show ?thesis
    using process_edit_booking_log [of now "user_id u" "username_of u" "full_name_of u" _ b]
    by (auto simp: edit_book_command_def Let_def mutating_def
        split: option.splits parsed.splits if_splits)
next
  case (Text u m)
  with assms show ?thesis
    using process_edit_booking_log [of now "user_id u" _ _ _ b]
      process_booking_log [of now "user_id u" _ _ _ b]
    by (auto simp: handle_text_message_def Let_def mutating_def
        split: option.splits parsed.splits if_splits session.splits)
next
  case (Button uid data)
  with assms show ?thesis
    using process_edit_booking_log [of now uid _ _ _ b]
      process_cancel_booking_log [of now uid _ _ b]
    by (auto simp: button_callback_def Let_def mutating_def clear_state_def
        split: option.splits callback_data.splits)
next
  case (Reset_button uid data)
  with assms show ?thesis
    by (auto simp: reset_confirmation_callback_def mutating_def
        split: option.splits session.splits reset_data.splits)
next
  case (Summary u)
  with assms show ?thesis
    using summarise_not_mutating [of "users_data b" "[]" "[]" 0]
    by (auto simp: summary_command_def mutating_def split: if_splits)
qed (use assms in \<open>auto simp: start_command_def cancel_booking_command_def
      reset_command_def send_message_command_def Let_def mutating_def
      split: option.splits if_splits prod.splits\<close>)

text \<open>
  C3. Every successful mutation appends exactly one entry to the log, and the entry's total is
  the \<open>sets\<close> of the mutated record right after the operation. Whatever the event, when
  the handler answers with a booking, edit or cancellation confirmation, the log after the
  call is the log before it followed by one entry \<open>e\<close>, and the record of the entry's user
  holds \<open>log_total e\<close> sets. The total is the booked quantity for a booking, the current sets
  plus the change for an edit (which succeeds whenever that sum is not negative), and \<open>0\<close> for
  a cancellation.
\<close>

theorem successful_mutation_logs_total:
  "(mutating (fst (step now ev b)) \<longrightarrow>
      (\<exists>e r. logs (snd (step now ev b)) = logs b @ [e] \<and>
         map_of (users_data (snd (step now ev b))) (log_user_id e) = Some r \<and>
         log_total e = sets r))
   \<and> log_total (last (logs (snd (process_booking now uid un fn n b)))) = n
   \<and> (\<forall>r. map_of (users_data b) uid = Some r \<and> 0 \<le> sets r + d \<longrightarrow>
         fst (process_edit_booking now uid un fn d b)
           = Inr (Edit_confirmed (sets r) d (sets r + d) now) \<and>
         log_total (last (logs (snd (process_edit_booking now uid un fn d b)))) = sets r + d)
   \<and> (\<forall>r. map_of (users_data b) uid = Some r \<longrightarrow>
         fst (process_cancel_booking now uid un fn b) = Inr (Cancel_confirmed now) \<and>
         log_total (last (logs (snd (process_cancel_booking now uid un fn b)))) = 0)"
proof -
  have "mutating (fst (step now ev b)) \<Longrightarrow>
      (\<exists>e r. logs (snd (step now ev b)) = logs b @ [e] \<and>
         map_of (users_data (snd (step now ev b))) (log_user_id e) = Some r \<and>
         log_total e = sets r)"
    by (rule step_mutating_log)
  then show ?thesis
    by (simp add: process_booking_def process_edit_booking_def process_cancel_booking_def
        add_log_entry_def clear_state_def Let_def)
qed

theorem successful_mutation_logs_total_witness:
  "(\<exists>e r. logs (snd (step ''t1''
        (Book \<lparr>user_id = ''7'', tg_username = Some ''al'', tg_full_name = ''Al''\<rparr>
           (Some (Parsed 5))) (init ''1''))) = logs (init ''1'') @ [e] \<and>
      map_of (users_data (snd (step ''t1''
        (Book \<lparr>user_id = ''7'', tg_username = Some ''al'', tg_full_name = ''Al''\<rparr>
           (Some (Parsed 5))) (init ''1'')))) (log_user_id e) = Some r \<and>
      log_total e = sets r)
   \<and> log_total (last (logs (snd (process_booking ''t1'' ''7'' ''@al'' ''Al'' 5 (init ''1''))))) = 5
   \<and> log_total (last (logs (snd (process_edit_booking ''t2'' ''7'' ''@al'' ''Al'' (- 2)
         (snd (process_booking ''t1'' ''7'' ''@al'' ''Al'' 5 (init ''1''))))))) = 3
   \<and> log_total (last (logs (snd (process_cancel_booking ''t2'' ''7'' ''@al'' ''Al''
         (snd (process_booking ''t1'' ''7'' ''@al'' ''Al'' 5 (init ''1''))))))) = 0"
  using successful_mutation_logs_total
    [of "''t1''" "Book \<lparr>user_id = ''7'', tg_username = Some ''al'', tg_full_name = ''Al''\<rparr>
           (Some (Parsed 5))" "init ''1''" "''7''" "''@al''" "''Al''" 5 "- 2"]
    successful_mutation_logs_total
    [of "''t2''" Start "snd (process_booking ''t1'' ''7'' ''@al'' ''Al'' 5 (init ''1''))"
       "''7''" "''@al''" "''Al''" 5 "- 2"]
  by (simp add: handler_defs mutating_def map_of_update)

subsection \<open>Cancelling\<close>

text \<open>
  C4. When the user's record is active with \<open>s\<close> sets, cancelling sets the record's status to
  cancelled, stores \<open>s\<close> as \<open>sets_before_cancel\<close>, sets \<open>sets\<close> to \<open>0\<close> and appends one
  log entry with change \<open>"-s"\<close>, total \<open>0\<close> and status \<open>"Cancelled"\<close>. The button
  \<open>cancel_yes\<close> of a user in the cancelling state is this operation.
\<close>

theorem cancel_active_booking:
  assumes "map_of (users_data b) uid = Some r" and "status r = Active" and "sets r = s"
  shows "fst (process_cancel_booking now uid un fn b) = Inr (Cancel_confirmed now)
     \<and> map_of (users_data (snd (process_cancel_booking now uid un fn b))) uid
         = Some (r\<lparr>status := Cancelled, sets_before_cancel := Some s, sets := 0\<rparr>)
     \<and> logs (snd (process_cancel_booking now uid un fn b))
         = logs b @ [\<lparr>log_timestamp = now, log_user_id = uid, log_username = un,
                      log_full_name = fn, log_change = ''-'' @ str_int s, log_total = 0,
                      log_status = ''Cancelled''\<rparr>]
     \<and> (user_states b uid = Some (Cancelling un fn s) \<longrightarrow>
          button_callback now uid Cancel_yes b = process_cancel_booking now uid un fn b)"
  using assms
  by (simp add: process_cancel_booking_def button_callback_def add_log_entry_def
      clear_state_def Let_def map_of_update)

theorem cancel_active_booking_witness:
  "map_of (users_data (snd (button_callback ''t4'' ''7'' Cancel_yes
      (run [(''t1'', Book \<lparr>user_id = ''7'', tg_username = Some ''al'', tg_full_name = ''Al''\<rparr>
                      (Some (Parsed 3))),
            (''t2'', Cancel_booking
                      \<lparr>user_id = ''7'', tg_username = Some ''al'', tg_full_name = ''Al''\<rparr>)]
         (init ''1''))))) ''7''
     = Some \<lparr>username = ''@al'', full_name = ''Al'', sets = 0, status = Cancelled,
             sets_before_cancel = Some 3\<rparr>
   \<and> map (\<lambda>e. (log_change e, log_total e, log_status e))
       (logs (snd (button_callback ''t4'' ''7'' Cancel_yes
      (run [(''t1'', Book \<lparr>user_id = ''7'', tg_username = Some ''al'', tg_full_name = ''Al''\<rparr>
                      (Some (Parsed 3))),
            (''t2'', Cancel_booking
                      \<lparr>user_id = ''7'', tg_username = Some ''al'', tg_full_name = ''Al''\<rparr>)]
         (init ''1'')))))
     = [(''+3'', 3, ''Booked''), (''-3'', 0, ''Cancelled'')]"
  using cancel_active_booking
    [of "run [(''t1'', Book \<lparr>user_id = ''7'', tg_username = Some ''al'', tg_full_name = ''Al''\<rparr>
                      (Some (Parsed 3))),
            (''t2'', Cancel_booking
                      \<lparr>user_id = ''7'', tg_username = Some ''al'', tg_full_name = ''Al''\<rparr>)]
         (init ''1'')"
      "''7''"
      "\<lparr>username = ''@al'', full_name = ''Al'', sets = 3, status = Active,
        sets_before_cancel = None\<rparr>"
      3 "''t4''" "''@al''" "''Al''"]
  by (simp add: handler_defs str_int_def str_nat.simps)

subsection \<open>Booking\<close>

text \<open>
  C5. A booking of \<open>n \<le> 0\<close> sets, given with the command or as the free-text reply of a user
  in the booking state, is answered with the positive-number error and leaves the bot as it
  was, so no record is created. For \<open>n > 0\<close> both paths are \<open>process_booking\<close>, which stores
  the record with status active and \<open>n\<close> sets and appends one log entry with change \<open>"+n"\<close>,
  total \<open>n\<close> and status \<open>"Booked"\<close>.
\<close>

theorem create_requires_positive:
  "(n \<le> 0 \<longrightarrow>
      book_command now u (Some (Parsed n)) b = (Inr Positive_required, b) \<and>
      (user_states b (user_id u) = Some (Booking un fn) \<longrightarrow>
         handle_text_message now u (Parsed n) b = (Inr Positive_required, b)))
   \<and> (0 < n \<longrightarrow>
      book_command now u (Some (Parsed n)) b
        = process_booking now (user_id u) (username_of u) (full_name_of u) n b \<and>
      (user_states b (user_id u) = Some (Booking un fn) \<longrightarrow>
         handle_text_message now u (Parsed n) b = process_booking now (user_id u) un fn n b))
   \<and> fst (process_booking now uid un fn n b) = Inr (Booking_confirmed n now)
   \<and> map_of (users_data (snd (process_booking now uid un fn n b))) uid
        = Some \<lparr>username = un, full_name = fn, sets = n, status = Active,
                sets_before_cancel = None\<rparr>
   \<and> logs (snd (process_booking now uid un fn n b))
        = logs b @ [\<lparr>log_timestamp = now, log_user_id = uid, log_username = un,
                     log_full_name = fn, log_change = ''+'' @ str_int n, log_total = n,
                     log_status = ''Booked''\<rparr>]"
  by (simp add: book_command_def handle_text_message_def process_booking_def add_log_entry_def
      clear_state_def Let_def map_of_update)

theorem create_requires_positive_witness:
  "book_command ''t1'' \<lparr>user_id = ''8'', tg_username = None, tg_full_name = ''Bo''\<rparr>
      (Some (Parsed 0)) (init ''1'') = (Inr Positive_required, init ''1'')
   \<and> map_of (users_data (snd (book_command ''t1''
        \<lparr>user_id = ''8'', tg_username = None, tg_full_name = ''Bo''\<rparr>
        (Some (Parsed 0)) (init ''1'')))) ''8'' = None
   \<and> handle_text_message ''t2'' \<lparr>user_id = ''8'', tg_username = None, tg_full_name = ''Bo''\<rparr>
        (Parsed (- 1))
        (snd (book_command ''t1'' \<lparr>user_id = ''8'', tg_username = None, tg_full_name = ''Bo''\<rparr>
                None (init ''1'')))
      = (Inr Positive_required,
         snd (book_command ''t1'' \<lparr>user_id = ''8'', tg_username = None, tg_full_name = ''Bo''\<rparr>
                None (init ''1'')))
   \<and> map_of (users_data (snd (book_command ''t1''
        \<lparr>user_id = ''8'', tg_username = None, tg_full_name = ''Bo''\<rparr>
        (Some (Parsed 5)) (init ''1'')))) ''8''
      = Some \<lparr>username = ''No username'', full_name = ''Bo'', sets = 5, status = Active,
              sets_before_cancel = None\<rparr>
   \<and> logs (snd (book_command ''t1''
        \<lparr>user_id = ''8'', tg_username = None, tg_full_name = ''Bo''\<rparr>
        (Some (Parsed 5)) (init ''1'')))
      = [\<lparr>log_timestamp = ''t1'', log_user_id = ''8'', log_username = ''No username'',
          log_full_name = ''Bo'', log_change = ''+5'', log_total = 5,
          log_status = ''Booked''\<rparr>]
   \<and> map_of (users_data (snd (handle_text_message ''t2''
        \<lparr>user_id = ''8'', tg_username = None, tg_full_name = ''Bo''\<rparr> (Parsed 4)
        (snd (book_command ''t1'' \<lparr>user_id = ''8'', tg_username = None, tg_full_name = ''Bo''\<rparr>
                None (init ''1'')))))) ''8''
      = Some \<lparr>username = ''No username'', full_name = ''Bo'', sets = 4, status = Active,
              sets_before_cancel = None\<rparr>"
  using create_requires_positive
    [of 0 "''t1''" "\<lparr>user_id = ''8'', tg_username = None, tg_full_name = ''Bo''\<rparr>" "init ''1''"
       "''No username''" "''Bo''" "''8''"]
    create_requires_positive
    [of "- 1" "''t2''" "\<lparr>user_id = ''8'', tg_username = None, tg_full_name = ''Bo''\<rparr>"
       "snd (book_command ''t1'' \<lparr>user_id = ''8'', tg_username = None, tg_full_name = ''Bo''\<rparr>
                None (init ''1''))" "''No username''" "''Bo''" "''8''"]
    create_requires_positive
    [of 5 "''t1''" "\<lparr>user_id = ''8'', tg_username = None, tg_full_name = ''Bo''\<rparr>" "init ''1''"
       "''No username''" "''Bo''" "''8''"]
    create_requires_positive
    [of 4 "''t2''" "\<lparr>user_id = ''8'', tg_username = None, tg_full_name = ''Bo''\<rparr>"
       "snd (book_command ''t1'' \<lparr>user_id = ''8'', tg_username = None, tg_full_name = ''Bo''\<rparr>
                None (init ''1''))" "''No username''" "''Bo''" "''8''"]
  by (simp add: handler_defs str_int_def str_nat.simps)

text \<open>
  C9. When the user already has a record, whatever it holds, a booking of \<open>n > 0\<close> sets
  replaces it with a fresh record: status active, \<open>n\<close> sets (not the old sets plus \<open>n\<close>), no
  \<open>sets_before_cancel\<close>; the log entry's change is \<open>"+n"\<close>. This holds for the command and
  for the free-text reply of a user in the booking state.
\<close>

theorem rebooking_overwrites_record:
  assumes "map_of (users_data b) (user_id u) = Some r0" and "0 < n"
  shows "map_of (users_data (snd (book_command now u (Some (Parsed n)) b))) (user_id u)
        = Some \<lparr>username = username_of u, full_name = full_name_of u, sets = n,
                status = Active, sets_before_cancel = None\<rparr>
     \<and> log_change (last (logs (snd (book_command now u (Some (Parsed n)) b))))
        = ''+'' @ str_int n
     \<and> (user_states b (user_id u) = Some (Booking un fn) \<longrightarrow>
          map_of (users_data (snd (handle_text_message now u (Parsed n) b))) (user_id u)
            = Some \<lparr>username = un, full_name = fn, sets = n, status = Active,
                    sets_before_cancel = None\<rparr> \<and>
          log_change (last (logs (snd (handle_text_message now u (Parsed n) b))))
            = ''+'' @ str_int n)"
  using assms
  by (simp add: book_command_def handle_text_message_def process_booking_def add_log_entry_def
      clear_state_def Let_def map_of_update)

theorem rebooking_overwrites_record_witness:
  "map_of (users_data (snd (book_command ''t4''
       \<lparr>user_id = ''7'', tg_username = Some ''al'', tg_full_name = ''Al''\<rparr> (Some (Parsed 2))
       \<lparr>admin_chat_id = ''1'',
        users_data = [(''7'', \<lparr>username = ''@old'', full_name = ''Old'', sets = 0,
                               status = Cancelled, sets_before_cancel = Some 5\<rparr>)],
        logs = [], user_states = [''7'' \<mapsto> Booking ''@al'' ''Al'']\<rparr>))) ''7''
     = Some \<lparr>username = ''@al'', full_name = ''Al'', sets = 2, status = Active,
             sets_before_cancel = None\<rparr>
   \<and> log_change (last (logs (snd (book_command ''t4''
       \<lparr>user_id = ''7'', tg_username = Some ''al'', tg_full_name = ''Al''\<rparr> (Some (Parsed 2))
       \<lparr>admin_chat_id = ''1'',
        users_data = [(''7'', \<lparr>username = ''@old'', full_name = ''Old'', sets = 0,
                               status = Cancelled, sets_before_cancel = Some 5\<rparr>)],
        logs = [], user_states = [''7'' \<mapsto> Booking ''@al'' ''Al'']\<rparr>)))) = ''+2''
   \<and> map_of (users_data (snd (handle_text_message ''t4''
       \<lparr>user_id = ''7'', tg_username = Some ''al'', tg_full_name = ''Al''\<rparr> (Parsed 2)
       \<lparr>admin_chat_id = ''1'',
        users_data = [(''7'', \<lparr>username = ''@old'', full_name = ''Old'', sets = 0,
                               status = Cancelled, sets_before_cancel = Some 5\<rparr>)],
        logs = [], user_states = [''7'' \<mapsto> Booking ''@al'' ''Al'']\<rparr>))) ''7''
     = Some \<lparr>username = ''@al'', full_name = ''Al'', sets = 2, status = Active,
             sets_before_cancel = None\<rparr>"
  using rebooking_overwrites_record
    [of "\<lparr>admin_chat_id = ''1'',
        users_data = [(''7'', \<lparr>username = ''@old'', full_name = ''Old'', sets = 0,
                               status = Cancelled, sets_before_cancel = Some 5\<rparr>)],
        logs = [], user_states = [''7'' \<mapsto> Booking ''@al'' ''Al'']\<rparr>"
       "\<lparr>user_id = ''7'', tg_username = Some ''al'', tg_full_name = ''Al''\<rparr>"
       "\<lparr>username = ''@old'', full_name = ''Old'', sets = 0,
                               status = Cancelled, sets_before_cancel = Some 5\<rparr>"
       2 "''t4''" "''@al''" "''Al''"]
  by (simp add: handler_defs str_int_def str_nat.simps)

subsection \<open>Editing down to zero\<close>



subsection \<open>Who passes the admin check\<close>

text \<open>
  C6, as the source has it. \<open>/summary\<close>, \<open>/reset\<close> and \<open>/send_message\<close> accept the caller
  exactly when the caller's identifier equals the configured admin identifier with every
  \<open>-\<close> removed. When the admin identifier has no \<open>-\<close> after its first character, that is
  the identifier with only a leading \<open>-\<close> removed.
\<close>

theorem admin_check_replaces_every_dash:
  "(fst (summary_command u b) \<noteq> Inr Admin_only) = (user_id u = replace_dash (admin_chat_id b))
   \<and> (fst (reset_command u b) \<noteq> Inr Admin_only) = (user_id u = replace_dash (admin_chat_id b))
   \<and> (fst (send_message_command u args delivered b) \<noteq> Inr Admin_only)
        = (user_id u = replace_dash (admin_chat_id b))
   \<and> (CHR ''-'' \<notin> set (tl (admin_chat_id b)) \<longrightarrow>
        replace_dash (admin_chat_id b) = strip_leading_separator (admin_chat_id b))"
proof -
  have 1: "(fst (summary_command u b) \<noteq> Inr Admin_only)
      = (user_id u = replace_dash (admin_chat_id b))"
    using summarise_report [of "users_data b" "[]" "[]" 0]
    by (auto simp: summary_command_def)
  have 2: "(fst (reset_command u b) \<noteq> Inr Admin_only)
      = (user_id u = replace_dash (admin_chat_id b))"
    by (simp add: reset_command_def)
  have 3: "(fst (send_message_command u args delivered b) \<noteq> Inr Admin_only)
      = (user_id u = replace_dash (admin_chat_id b))"
    by (auto simp: send_message_command_def Let_def split: option.splits prod.splits)
  have 4: "CHR ''-'' \<notin> set (tl a) \<Longrightarrow> replace_dash a = strip_leading_separator a" for a
    by (cases a) (auto simp: replace_dash_def strip_leading_separator_def filter_id_conv)
  from 1 2 3 4 show ?thesis by blast
qed

theorem admin_check_replaces_every_dash_witness:
  "fst (summary_command \<lparr>user_id = ''1005'', tg_username = None, tg_full_name = ''Ad''\<rparr>
      (init ''-1005'')) \<noteq> Inr Admin_only
   \<and> fst (reset_command \<lparr>user_id = ''1005'', tg_username = None, tg_full_name = ''Ad''\<rparr>
      (init ''-1005'')) \<noteq> Inr Admin_only
   \<and> fst (send_message_command \<lparr>user_id = ''1005'', tg_username = None, tg_full_name = ''Ad''\<rparr>
      [] True (init ''-1005'')) \<noteq> Inr Admin_only
   \<and> replace_dash ''-1005'' = strip_leading_separator ''-1005''"
  using admin_check_replaces_every_dash
    [of "\<lparr>user_id = ''1005'', tg_username = None, tg_full_name = ''Ad''\<rparr>" "init ''-1005''"
      "[]" True]
  by (simp add: init_def replace_dash_def strip_leading_separator_def)

text \<open>
  With the admin identifier \<open>1-2\<close> the caller \<open>12\<close> is accepted, although \<open>12\<close> is not the
  admin identifier with only a leading \<open>-\<close> removed.
\<close>

theorem admin_check_leading_separator_counterexample:
  "\<not> ((fst (summary_command \<lparr>user_id = ''12'', tg_username = None, tg_full_name = ''Ad''\<rparr>
            (init ''1-2'')) \<noteq> Inr Admin_only)
       = (user_id \<lparr>user_id = ''12'', tg_username = None, tg_full_name = ''Ad''\<rparr>
            = strip_leading_separator (admin_chat_id (init ''1-2''))))"
  by (simp add: summary_command_def init_def replace_dash_def strip_leading_separator_def)

subsection \<open>The life of a pending state\<close>




subsection \<open>No record has negative sets\<close>

lemma process_booking_nonneg:
  "sets_nonneg b \<Longrightarrow> 0 < n \<Longrightarrow> sets_nonneg (snd (process_booking now uid un fn n b))"
  by (simp add: sets_nonneg_def process_booking_def add_log_entry_def clear_state_def Let_def
      list_all_update)

lemma process_edit_booking_nonneg:
  "sets_nonneg b \<Longrightarrow> sets_nonneg (snd (process_edit_booking now uid un fn d b))"
  by (simp add: sets_nonneg_def process_edit_booking_def add_log_entry_def clear_state_def
      Let_def list_all_update split: option.splits)

lemma process_cancel_booking_nonneg:
  "sets_nonneg b \<Longrightarrow> sets_nonneg (snd (process_cancel_booking now uid un fn b))"
  by (simp add: sets_nonneg_def process_cancel_booking_def add_log_entry_def clear_state_def
      Let_def list_all_update split: option.splits)

lemma sets_nonneg_user_states: "sets_nonneg (b\<lparr>user_states := m\<rparr>) = sets_nonneg b"
  by (simp add: sets_nonneg_def)

lemma step_sets_nonneg:
  assumes "sets_nonneg b"
  shows "sets_nonneg (snd (step now ev b))"
proof (cases ev)
  case (Book u arg)
  with assms show ?thesis
    by (auto simp: book_command_def Let_def process_booking_nonneg sets_nonneg_user_states
        split: option.splits parsed.splits)
next
  case (Edit_book u arg)
  with assms show ?thesis
    by (auto simp: edit_book_command_def Let_def process_edit_booking_nonneg
        sets_nonneg_user_states split: option.splits parsed.splits)
next
  case (Text u m)
  with assms show ?thesis
    by (auto simp: handle_text_message_def Let_def process_edit_booking_nonneg
        process_booking_nonneg split: option.splits parsed.splits session.splits)
next
  case (Button uid data)
  with assms show ?thesis
    by (auto simp: button_callback_def Let_def process_edit_booking_nonneg
        process_cancel_booking_nonneg clear_state_def sets_nonneg_user_states
        split: option.splits callback_data.splits)
next
  case (Reset_button uid data)
  with assms show ?thesis
    by (auto simp: reset_confirmation_callback_def clear_state_def sets_nonneg_def
        split: option.splits session.splits reset_data.splits)
qed (use assms in \<open>auto simp: start_command_def cancel_booking_command_def
      summary_command_def reset_command_def send_message_command_def Let_def
      sets_nonneg_user_states split: option.splits\<close>)

lemma run_sets_nonneg: "sets_nonneg b \<Longrightarrow> sets_nonneg (run evs b)"
  by (induction evs arbitrary: b) (auto simp: step_sets_nonneg)

lemma run_init_sets_nonneg: "sets_nonneg (run evs (init admin))"
  by (rule run_sets_nonneg) (simp add: sets_nonneg_def init_def)

subsection \<open>A cancelled record with sets\<close>

text \<open>
  C2. The part \<open>sets \<ge> 0\<close> of the invariant holds after every list of events from the empty
  bot (\<open>run_init_sets_nonneg\<close> above). The part "a cancelled record has \<open>0\<close> sets" does not:
  \<open>button_callback\<close> checks only that the user has some pending state. After \<open>/book 5\<close>,
  \<open>/edit_book\<close> (which shows the edit buttons), \<open>/cancel_booking\<close>, the button
  \<open>cancel_yes\<close>, \<open>/book\<close> without an argument and the button \<open>+1\<close> of the earlier edit
  message, the record is cancelled and holds \<open>1\<close> set.
\<close>

theorem stale_edit_button_on_cancelled_record:
  "map_of (users_data
     (run [(''t1'', Book \<lparr>user_id = ''7'', tg_username = Some ''al'', tg_full_name = ''Al''\<rparr>
                      (Some (Parsed 5))),
           (''t2'', Edit_book \<lparr>user_id = ''7'', tg_username = Some ''al'', tg_full_name = ''Al''\<rparr>
                      None),
           (''t3'', Cancel_booking
                      \<lparr>user_id = ''7'', tg_username = Some ''al'', tg_full_name = ''Al''\<rparr>),
           (''t4'', Button ''7'' Cancel_yes),
           (''t5'', Book \<lparr>user_id = ''7'', tg_username = Some ''al'', tg_full_name = ''Al''\<rparr>
                      None),
           (''t6'', Button ''7'' (Edit_button 1))] (init ''1''))) ''7''
   = Some \<lparr>username = ''@al'', full_name = ''Al'', sets = 1, status = Cancelled,
           sets_before_cancel = Some 5\<rparr>"
  by (simp add: handler_defs)

end
